theory Spec2Isabelle
  imports Main "HOL-Library.AList"
begin

section \<open>Python values and exceptions\<close>

text \<open>
  The handler of \<^verbatim>\<open>mqtt2influxdb.py\<close> works on decoded JSON and on what the path
  resolver finds in it. A \<^verbatim>\<open>str\<close> is held as the list of the bytes of its UTF-8
  encoding, a \<^verbatim>\<open>dict\<close> as an association list in insertion order (keys distinct).
  A \<^verbatim>\<open>float\<close> is held as the 64 bits of its encoding: the handler never computes
  with one, and what a float means to a library is a parameter below.
\<close>

datatype pyfloat = Binary64 nat

datatype pyval =
    VNone
  | VBool bool
  | VInt int
  | VFloat pyfloat
  | VStr string
  | VBytes string
  | VList "pyval list"
  | VDict "(string \<times> pyval) list"

datatype exn =
    UnicodeDecodeError
  | AttributeError
  | KeyError
  | TypeError
  | ValueError
  | OverflowError
  | BinasciiError
  | ExpressionError
  | OtherError string

text \<open>\<^verbatim>\<open>except ValueError\<close> also catches the subclasses of \<^verbatim>\<open>ValueError\<close>.\<close>

fun is_ValueError :: "exn \<Rightarrow> bool" where
  "is_ValueError ValueError = True"
| "is_ValueError UnicodeDecodeError = True"
| "is_ValueError BinasciiError = True"
| "is_ValueError _ = False"

section \<open>Configuration\<close>

text \<open>
  A value reference of the configuration is a \<^verbatim>\<open>str\<close>, a \<^verbatim>\<open>jsonpath_ng.JSONPath\<close>
  or a \<^verbatim>\<open>py_expression_eval.Expression\<close>. The two library classes are the type
  parameters \<open>'p\<close> and \<open>'e\<close>.
\<close>

datatype ('p, 'e) valueref =
    Literal string
  | PathLookup 'p
  | Expression 'e

text \<open>
  An entry of \<^verbatim>\<open>point['fields']\<close> is a value reference or a dict
  \<^verbatim>\<open>{'value': ..., 'type': ...}\<close>; \<^verbatim>\<open>point['fields']\<close> itself is such a dict or one
  \<^verbatim>\<open>JSONPath\<close>.
\<close>

datatype ('p, 'e) fieldspec =
    Bare "('p, 'e) valueref"
  | Typed "('p, 'e) valueref" string

datatype ('p, 'e) fieldsspec =
    FieldsPath 'p
  | FieldsDict "(string \<times> ('p, 'e) fieldspec) list"

record ('p, 'e) point =
  topic :: string
  measurement :: "('p, 'e) valueref"
  schedule :: "string option"
  point_fields :: "('p, 'e) fieldsspec option"
  tags :: "(string \<times> ('p, 'e) valueref) list option"
  database :: "string option"
  httpcontent :: "(string \<times> ('p, 'e) valueref) list option"

record ('p, 'e) base64_config =
  source :: "('p, 'e) valueref"
  target :: string

record http_config =
  action :: string
  destination :: string
  username :: string
  password :: string

record ('p, 'e) config =
  points :: "('p, 'e) point list"
  base64decode :: "('p, 'e) base64_config option"
  http :: "http_config option"

section \<open>The libraries and the host\<close>

text \<open>
  What the handler calls outside this file is a parameter: the theorems hold for every
  behaviour of \<^verbatim>\<open>json.loads\<close>, \<^verbatim>\<open>JSONPath.find\<close>, \<^verbatim>\<open>Expression.variables\<close> and
  \<^verbatim>\<open>Expression.evaluate\<close>, \<^verbatim>\<open>pycron.is_now\<close>, \<^verbatim>\<open>getattr(builtins, ...)\<close>,
  \<^verbatim>\<open>base64.b64decode\<close> and \<^verbatim>\<open>getattr(requests, ...)\<close>, for every clock reading
  \<open>utcnow\<close> (seconds since the epoch) and every local time zone \<open>utcoffset\<close> (seconds
  east of UTC at an instant). \<open>variable_to_jsonpath\<close> and \<open>json_path\<close> are the two
  helpers the module imports from \<^verbatim>\<open>.expr\<close> and \<^verbatim>\<open>.config\<close>. \<open>float_epoch\<close> is the
  whole second \<^verbatim>\<open>datetime.fromtimestamp\<close> reads from a float (\<open>None\<close> where it raises),
  \<open>float_truthy\<close> the truth value of a float. One clock reading serves a whole message.
\<close>

record ('p, 'e) libs =
  json_loads :: "string \<Rightarrow> pyval option"
  path_find :: "'p \<Rightarrow> pyval \<Rightarrow> pyval list"
  variables :: "'e \<Rightarrow> string list"
  evaluate :: "'e \<Rightarrow> (string \<times> pyval) list \<Rightarrow> exn + pyval"
  variable_to_jsonpath :: "string \<Rightarrow> string"
  json_path :: "string \<Rightarrow> 'p"
  is_now :: "string \<Rightarrow> bool"
  utcnow :: int
  utcoffset :: "int \<Rightarrow> int"
  float_epoch :: "pyfloat \<Rightarrow> int option"
  float_truthy :: "pyfloat \<Rightarrow> bool"
  builtins :: "string \<Rightarrow> (pyval \<Rightarrow> exn + pyval) option"
  b64decode :: "pyval \<Rightarrow> exn + string"
  requests :: "string \<Rightarrow> bool"

section \<open>Resolving a value reference\<close>

definition startswith :: "string \<Rightarrow> string \<Rightarrow> bool" where
  "startswith s p = (take (length p) s = p)"

text \<open>
  The loop over \<^verbatim>\<open>param.variables()\<close>: a variable that starts with \<^verbatim>\<open>JSON__\<close> and
  whose path finds something is stored in \<^verbatim>\<open>vars\<close>; every other one is logged and left
  out.
\<close>

fun bind_vars ::
  "('p, 'e) libs \<Rightarrow> (string \<times> pyval) list \<Rightarrow> string list \<Rightarrow> (string \<times> pyval) list
    \<Rightarrow> (string \<times> pyval) list" where
  "bind_vars L msg [] vars = vars"
| "bind_vars L msg (var # rest) vars =
     (if startswith var ''JSON__'' then
        (case path_find L (json_path L (variable_to_jsonpath L var)) (VDict msg) of
           [] \<Rightarrow> bind_vars L msg rest vars
         | v # _ \<Rightarrow> bind_vars L msg rest (AList.update var v vars))
      else bind_vars L msg rest vars)"

fun get_value_from_str_or_JSONPath ::
  "('p, 'e) libs \<Rightarrow> ('p, 'e) valueref \<Rightarrow> (string \<times> pyval) list \<Rightarrow> exn + pyval" where
  "get_value_from_str_or_JSONPath L (Literal s) msg = Inr (VStr s)"
| "get_value_from_str_or_JSONPath L (PathLookup p) msg =
     (case path_find L p (VDict msg) of [] \<Rightarrow> Inr VNone | v # _ \<Rightarrow> Inr v)"
| "get_value_from_str_or_JSONPath L (Expression e) msg =
     evaluate L e (bind_vars L msg (variables L e) [])"

section \<open>Text, topics and time\<close>

text \<open>
  \<^verbatim>\<open>bytes.decode('utf-8')\<close>: the well-formed byte sequences of UTF-8 (no overlong
  form, no surrogate, nothing above U+10FFFF); anything else raises.
\<close>

definition byte_in :: "char \<Rightarrow> nat \<Rightarrow> nat \<Rightarrow> bool" where
  "byte_in c lo hi = (lo \<le> of_char c \<and> (of_char c :: nat) \<le> hi)"

fun utf8_valid :: "string \<Rightarrow> bool" where
  "utf8_valid [] = True"
| "utf8_valid [a] = byte_in a 0 127"
| "utf8_valid [a, b] =
     (if byte_in a 0 127 then utf8_valid [b]
      else byte_in a 194 223 \<and> byte_in b 128 191)"
| "utf8_valid [a, b, c] =
     (if byte_in a 0 127 then utf8_valid [b, c]
      else if byte_in a 194 223 then byte_in b 128 191 \<and> utf8_valid [c]
      else (byte_in a 224 224 \<and> byte_in b 160 191 \<or>
            (byte_in a 225 236 \<or> byte_in a 238 239) \<and> byte_in b 128 191 \<or>
            byte_in a 237 237 \<and> byte_in b 128 159) \<and> byte_in c 128 191)"
| "utf8_valid (a # b # c # d # s) =
     (if byte_in a 0 127 then utf8_valid (b # c # d # s)
      else if byte_in a 194 223 then byte_in b 128 191 \<and> utf8_valid (c # d # s)
      else if byte_in a 224 239 then
        (byte_in a 224 224 \<and> byte_in b 160 191 \<or>
         (byte_in a 225 236 \<or> byte_in a 238 239) \<and> byte_in b 128 191 \<or>
         byte_in a 237 237 \<and> byte_in b 128 159) \<and> byte_in c 128 191 \<and> utf8_valid (d # s)
      else (byte_in a 240 240 \<and> byte_in b 144 191 \<or>
            byte_in a 241 243 \<and> byte_in b 128 191 \<or>
            byte_in a 244 244 \<and> byte_in b 128 143) \<and>
           byte_in c 128 191 \<and> byte_in d 128 191 \<and> utf8_valid s)"

definition decode_utf8 :: "string \<Rightarrow> exn + string" where
  "decode_utf8 bs = (if utf8_valid bs then Inr bs else Inl UnicodeDecodeError)"

text \<open>\<^verbatim>\<open>s.split(sep)\<close> for a separator of one character.\<close>

fun str_split :: "char \<Rightarrow> string \<Rightarrow> string list" where
  "str_split sep [] = [ [] ]"
| "str_split sep (c # s) =
     (if c = sep then [] # str_split sep s
      else (case str_split sep s of [] \<Rightarrow> [ [c] ] | x # xs \<Rightarrow> (c # x) # xs))"

text \<open>
  \<^verbatim>\<open>paho.mqtt.client.topic_matches_sub\<close>: the subscription is stored in an
  \<^verbatim>\<open>MQTTMatcher\<close> and the topic looked up in it, level by level. \<open>ok\<close> is the
  matcher's \<^verbatim>\<open>normal or i > 0\<close>: a wildcard does not match the first level of a topic
  that starts with \<^verbatim>\<open>$\<close>.
\<close>

fun iter_match :: "string list \<Rightarrow> string list \<Rightarrow> bool \<Rightarrow> bool" where
  "iter_match sub [] ok = (sub = [] \<or> sub = [''#''] \<and> ok)"
| "iter_match sub (part # lst) ok =
     ((case sub of
         [] \<Rightarrow> False
       | s # sub' \<Rightarrow> s = part \<and> iter_match sub' lst True \<or>
                     s = ''+'' \<and> ok \<and> iter_match sub' lst True)
      \<or> sub = [''#''] \<and> ok)"

definition topic_matches_sub :: "string \<Rightarrow> string \<Rightarrow> bool" where
  "topic_matches_sub sub topic' =
     iter_match (str_split CHR ''/'' sub) (str_split CHR ''/'' topic')
       (\<not> startswith topic' ''$'')"

text \<open>
  A naive \<^verbatim>\<open>datetime\<close> is held as the number of seconds from 1970-01-01T00:00:00 to
  it on its own calendar. \<open>strftime\<close> is \<^verbatim>\<open>.strftime('%Y-%m-%dT%H:%M:%SZ')\<close>, with
  the year in four digits.
\<close>

definition digit :: "int \<Rightarrow> char" where
  "digit d = ''0123456789'' ! nat d"

definition pad2 :: "int \<Rightarrow> string" where
  "pad2 n = [digit (n div 10 mod 10), digit (n mod 10)]"

definition pad4 :: "int \<Rightarrow> string" where
  "pad4 n = pad2 (n div 100) @ pad2 n"

definition civil_from_days :: "int \<Rightarrow> int \<times> int \<times> int" where
  "civil_from_days days =
     (let z = days + 719468;
          era = z div 146097;
          doe = z mod 146097;
          yoe = (doe - doe div 1460 + doe div 36524 - doe div 146096) div 365;
          doy = doe - (365 * yoe + yoe div 4 - yoe div 100);
          mp = (5 * doy + 2) div 153;
          d = doy - (153 * mp + 2) div 5 + 1;
          m = (if mp < 10 then mp + 3 else mp - 9);
          y = yoe + era * 400 + (if m \<le> 2 then 1 else 0)
      in (y, m, d))"

definition strftime :: "int \<Rightarrow> string" where
  "strftime t =
     (case civil_from_days (t div 86400) of
        (y, m, d) \<Rightarrow>
          pad4 y @ ''-'' @ pad2 m @ ''-'' @ pad2 d @ ''T'' @
          pad2 (t mod 86400 div 3600) @ '':'' @ pad2 (t mod 3600 div 60) @ '':'' @
          pad2 (t mod 60) @ ''Z'')"

text \<open>
  \<^verbatim>\<open>datetime.fromtimestamp(x)\<close> with no time zone argument: the local date and time
  of the instant \<open>x\<close>, for a number within the years 1 to 9999; it raises for anything
  else.
\<close>

definition epoch_seconds :: "('p, 'e) libs \<Rightarrow> pyval \<Rightarrow> exn + int" where
  "epoch_seconds L x =
     (case x of
        VInt i \<Rightarrow> Inr i
      | VBool b \<Rightarrow> Inr (if b then 1 else 0)
      | VFloat f \<Rightarrow> (case float_epoch L f of None \<Rightarrow> Inl ValueError | Some i \<Rightarrow> Inr i)
      | _ \<Rightarrow> Inl TypeError)"

definition fromtimestamp :: "('p, 'e) libs \<Rightarrow> pyval \<Rightarrow> exn + int" where
  "fromtimestamp L x =
     (case epoch_seconds L x of
        Inl e \<Rightarrow> Inl e
      | Inr t \<Rightarrow>
          (let local = t + utcoffset L t
           in if - 62135596800 \<le> local \<and> local \<le> 253402300799 then Inr local
              else Inl ValueError))"

text \<open>\<^verbatim>\<open>bytes.hex()\<close>\<close>

definition hex_digit :: "nat \<Rightarrow> char" where
  "hex_digit n = ''0123456789abcdef'' ! n"

definition hex :: "string \<Rightarrow> string" where
  "hex bs = concat (map (\<lambda>c. [hex_digit (of_char c div 16), hex_digit (of_char c mod 16)]) bs)"

text \<open>The truth value of a Python object, as \<^verbatim>\<open>not x\<close> reads it.\<close>

fun truthy :: "('p, 'e) libs \<Rightarrow> pyval \<Rightarrow> bool" where
  "truthy L VNone = False"
| "truthy L (VBool b) = b"
| "truthy L (VInt i) = (i \<noteq> 0)"
| "truthy L (VFloat f) = float_truthy L f"
| "truthy L (VStr s) = (s \<noteq> [])"
| "truthy L (VBytes s) = (s \<noteq> [])"
| "truthy L (VList xs) = (xs \<noteq> [])"
| "truthy L (VDict d) = (d \<noteq> [])"

section \<open>The message handler\<close>

record message =
  msg_topic :: string
  msg_payload :: string
  msg_timestamp :: pyval
  msg_qos :: pyval

record influx_record =
  rec_measurement :: pyval
  rec_time :: string
  rec_tags :: "(string \<times> pyval) list"
  rec_fields :: pyval

text \<open>
  The calls to the two sinks, in order: \<^verbatim>\<open>self._influxdb.write_points([record],
  database=...)\<close> and the call of the configured attribute of \<^verbatim>\<open>requests\<close> with the
  url, the data and the basic authentication. A call is recorded and returns; the
  logging calls are left out.
\<close>

datatype call =
    Write_points influx_record "string option"
  | Http_request string string "(string \<times> pyval) list" "string \<times> string"

text \<open>
  The local variables that live across the iterations of \<^verbatim>\<open>for point in
  self._points\<close>, and the calls made so far.
\<close>

record state =
  st_msg :: "(string \<times> pyval) list option"
  st_payload :: pyval
  st_calls :: "call list"

text \<open>How one iteration of the loop ends: at its end or by \<^verbatim>\<open>continue\<close>, by
  \<^verbatim>\<open>return\<close>, or by an exception that nothing catches.\<close>

datatype flow = Next | Return | Raise exn

text \<open>Lines 110 to 127: the payload and the message context, built at the first match.\<close>

definition build_msg ::
  "('p, 'e) libs \<Rightarrow> message \<Rightarrow> exn + pyval \<times> (string \<times> pyval) list" where
  "build_msg L message =
     (case decode_utf8 (msg_payload message) of
        Inl e \<Rightarrow> Inl e
      | Inr decoded \<Rightarrow>
          (let text = (if decoded = [] then ''null'' else decoded);
               payload = (case json_loads L text of Some v \<Rightarrow> v | None \<Rightarrow> VStr text)
           in Inr (payload,
                   [(''topic'', VList (map VStr (str_split CHR ''/'' (msg_topic message)))),
                    (''payload'', payload),
                    (''timestamp'', msg_timestamp message),
                    (''qos'', msg_qos message)])))"

text \<open>\<^verbatim>\<open>if not msg:\<close> is taken for \<^verbatim>\<open>None\<close> and for an empty dict.\<close>

definition ensure_msg ::
  "('p, 'e) libs \<Rightarrow> message \<Rightarrow> state \<Rightarrow> exn + pyval \<times> (string \<times> pyval) list" where
  "ensure_msg L message st =
     (case st_msg st of
        None \<Rightarrow> build_msg L message
      | Some msg \<Rightarrow> if msg = [] then build_msg L message else Inr (st_payload st, msg))"

text \<open>
  Lines 139 to 147. \<open>embedded_timestamp\<close> is the body of the \<^verbatim>\<open>try\<close>: the time read
  from the payload, \<open>None\<close> when the payload has no such key, or the exception raised.
  \<open>record_timestamp\<close> is the value of \<^verbatim>\<open>timestamp\<close> after the \<^verbatim>\<open>except\<close>.
\<close>

definition embedded_timestamp :: "('p, 'e) libs \<Rightarrow> pyval \<Rightarrow> exn + string option" where
  "embedded_timestamp L payload =
     (case payload of
        VDict d \<Rightarrow>
          (case map_of d ''timestamp'' of
             None \<Rightarrow> Inr None
           | Some x \<Rightarrow>
               (case fromtimestamp L x of Inl e \<Rightarrow> Inl e | Inr t \<Rightarrow> Inr (Some (strftime t))))
      | _ \<Rightarrow> Inl AttributeError)"

definition record_timestamp :: "('p, 'e) libs \<Rightarrow> pyval \<Rightarrow> string" where
  "record_timestamp L payload =
     (case embedded_timestamp L payload of
        Inr (Some t) \<Rightarrow> t
      | _ \<Rightarrow> strftime (utcnow L))"

text \<open>Lines 154 to 159: the two \<^verbatim>\<open>msg.update\<close> calls on the same key.\<close>

definition base64_merge ::
  "('p, 'e) libs \<Rightarrow> ('p, 'e) config \<Rightarrow> (string \<times> pyval) list
    \<Rightarrow> exn + (string \<times> pyval) list" where
  "base64_merge L cfg msg =
     (case base64decode cfg of
        None \<Rightarrow> Inr msg
      | Some b \<Rightarrow>
          (case get_value_from_str_or_JSONPath L (source b) msg of
             Inl e \<Rightarrow> Inl e
           | Inr data \<Rightarrow>
               (case b64decode L data of
                  Inl e \<Rightarrow> Inl e
                | Inr dataDecoded \<Rightarrow>
                    Inr (AList.update ''base64decoded''
                           (VDict [(target b, VDict [(''hex'', VStr (hex dataDecoded))])])
                           (AList.update ''base64decoded''
                              (VDict [(target b, VDict [(''raw'', VBytes dataDecoded)])])
                              msg)))))"

text \<open>
  Lines 168 to 187: the value of one entry of \<^verbatim>\<open>point['fields']\<close>; \<open>VNone\<close> is an
  entry the loop skips. \<open>flds\<close> is the whole of \<^verbatim>\<open>point['fields']\<close>.
\<close>

fun field_value ::
  "('p, 'e) libs \<Rightarrow> (string \<times> ('p, 'e) fieldspec) list \<Rightarrow> (string \<times> pyval) list
    \<Rightarrow> string \<Rightarrow> ('p, 'e) fieldspec \<Rightarrow> exn + pyval" where
  "field_value L flds msg key (Typed p ty) =
     (case get_value_from_str_or_JSONPath L p msg of
        Inl e \<Rightarrow> Inl e
      | Inr val \<Rightarrow>
          if val = VNone then Inr VNone
          else (case builtins L ty of
                  None \<Rightarrow> Inr val
                | Some convFunc \<Rightarrow>
                    (case convFunc val of
                       Inl e \<Rightarrow> if is_ValueError e then Inr VNone else Inl e
                     | Inr v \<Rightarrow> Inr v)))"
| "field_value L flds msg key (Bare p) =
     (case get_value_from_str_or_JSONPath L p msg of
        Inl e \<Rightarrow> Inl e
      | Inr val \<Rightarrow>
          if key = ''value'' then
            (case val of
               VBool b \<Rightarrow>
                 if map_of flds ''type'' = Some (Bare (Literal ''booltoint''))
                 then Inr (VInt (if b then 1 else 0)) else Inr val
             | _ \<Rightarrow> Inr val)
          else if key = ''type'' then
            (if val = VStr ''booltoint'' then Inr (VStr ''int'') else Inr val)
          else Inr val)"

fun fields_loop ::
  "('p, 'e) libs \<Rightarrow> (string \<times> ('p, 'e) fieldspec) list \<Rightarrow> (string \<times> pyval) list
    \<Rightarrow> (string \<times> ('p, 'e) fieldspec) list \<Rightarrow> (string \<times> pyval) list
    \<Rightarrow> exn + (string \<times> pyval) list" where
  "fields_loop L flds msg [] acc = Inr acc"
| "fields_loop L flds msg ((key, spec) # rest) acc =
     (case field_value L flds msg key spec of
        Inl e \<Rightarrow> Inl e
      | Inr val \<Rightarrow>
          if val = VNone then fields_loop L flds msg rest acc
          else fields_loop L flds msg rest (AList.update key val acc))"

text \<open>Lines 161 to 193: the value of \<^verbatim>\<open>record['fields']\<close>.\<close>

definition resolve_fields ::
  "('p, 'e) libs \<Rightarrow> ('p, 'e) point \<Rightarrow> (string \<times> pyval) list \<Rightarrow> exn + pyval" where
  "resolve_fields L point msg =
     (case point_fields point of
        None \<Rightarrow> Inr (VDict [])
      | Some (FieldsPath p) \<Rightarrow> get_value_from_str_or_JSONPath L (PathLookup p) msg
      | Some (FieldsDict flds) \<Rightarrow>
          (case fields_loop L flds msg flds [] of
             Inl e \<Rightarrow> Inl e
           | Inr acc \<Rightarrow> Inr (VDict acc)))"

text \<open>
  The loops over \<^verbatim>\<open>point['tags']\<close> (lines 200 to 205) and over
  \<^verbatim>\<open>point['httpcontent']\<close> (lines 216 to 220): an entry that resolves to \<^verbatim>\<open>None\<close>
  is skipped.
\<close>

fun resolve_all ::
  "('p, 'e) libs \<Rightarrow> (string \<times> pyval) list \<Rightarrow> (string \<times> ('p, 'e) valueref) list
    \<Rightarrow> (string \<times> pyval) list \<Rightarrow> exn + (string \<times> pyval) list" where
  "resolve_all L msg [] acc = Inr acc"
| "resolve_all L msg ((key, p) # rest) acc =
     (case get_value_from_str_or_JSONPath L p msg of
        Inl e \<Rightarrow> Inl e
      | Inr val \<Rightarrow>
          if val = VNone then resolve_all L msg rest acc
          else resolve_all L msg rest (AList.update key val acc))"

definition resolve_tags ::
  "('p, 'e) libs \<Rightarrow> ('p, 'e) point \<Rightarrow> (string \<times> pyval) list
    \<Rightarrow> exn + (string \<times> pyval) list" where
  "resolve_tags L point msg =
     (case tags point of None \<Rightarrow> Inr [] | Some ts \<Rightarrow> resolve_all L msg ts [])"

text \<open>Lines 214 to 226: the forwarding over HTTP, after the record is written.\<close>

definition forward_http ::
  "('p, 'e) libs \<Rightarrow> ('p, 'e) config \<Rightarrow> ('p, 'e) point \<Rightarrow> state \<Rightarrow> (string \<times> pyval) list
    \<Rightarrow> flow \<times> state" where
  "forward_http L cfg point st msg =
     (case http cfg of
        None \<Rightarrow> (Next, st)
      | Some h \<Rightarrow>
          (case httpcontent point of
             None \<Rightarrow> (Raise KeyError, st)
           | Some content \<Rightarrow>
               (case resolve_all L msg content [] of
                  Inl e \<Rightarrow> (Raise e, st)
                | Inr http_record \<Rightarrow>
                    if requests L (action h)
                    then (Next, st\<lparr>st_calls := st_calls st @
                            [Http_request (action h) (destination h) http_record
                               (username h, password h)]\<rparr>)
                    else (Next, st))))"

text \<open>Lines 134 to 226: a point whose topic matches and whose schedule lets it pass.\<close>

definition emit_point ::
  "('p, 'e) libs \<Rightarrow> ('p, 'e) config \<Rightarrow> ('p, 'e) point \<Rightarrow> state \<Rightarrow> (string \<times> pyval) list
    \<Rightarrow> flow \<times> state" where
  "emit_point L cfg point st msg =
     (case get_value_from_str_or_JSONPath L (measurement point) msg of
        Inl e \<Rightarrow> (Raise e, st)
      | Inr m \<Rightarrow>
          if m = VNone then (Return, st)
          else
            (let timestamp = record_timestamp L (st_payload st) in
             case base64_merge L cfg msg of
               Inl e \<Rightarrow> (Raise e, st)
             | Inr msg' \<Rightarrow>
                 (let st' = st\<lparr>st_msg := Some msg'\<rparr> in
                  case resolve_fields L point msg' of
                    Inl e \<Rightarrow> (Raise e, st')
                  | Inr flds \<Rightarrow>
                      if \<not> truthy L flds then (Return, st')
                      else
                        (case resolve_tags L point msg' of
                           Inl e \<Rightarrow> (Raise e, st')
                         | Inr tgs \<Rightarrow>
                             forward_http L cfg point
                               (st'\<lparr>st_calls := st_calls st' @
                                  [Write_points
                                     \<lparr>rec_measurement = m, rec_time = timestamp,
                                      rec_tags = tgs, rec_fields = flds\<rparr>
                                     (database point)]\<rparr>)
                               msg'))))"

text \<open>Lines 108 to 132, then the rest of the iteration.\<close>

definition process_point ::
  "('p, 'e) libs \<Rightarrow> ('p, 'e) config \<Rightarrow> message \<Rightarrow> ('p, 'e) point \<Rightarrow> state
    \<Rightarrow> flow \<times> state" where
  "process_point L cfg message point st =
     (if \<not> topic_matches_sub (topic point) (msg_topic message) then (Next, st)
      else
        (case ensure_msg L message st of
           Inl e \<Rightarrow> (Raise e, st)
         | Inr (payload, msg) \<Rightarrow>
             (let st' = st\<lparr>st_msg := Some msg, st_payload := payload\<rparr> in
              if (case schedule point of None \<Rightarrow> False | Some s \<Rightarrow> \<not> is_now L s)
              then (Next, st')
              else emit_point L cfg point st' msg)))"

text \<open>
  The loop over the points: \<open>None\<close> when the handler returns, \<open>Some e\<close> when it raises
  \<open>e\<close>.
\<close>

fun points_loop ::
  "('p, 'e) libs \<Rightarrow> ('p, 'e) config \<Rightarrow> message \<Rightarrow> ('p, 'e) point list \<Rightarrow> state
    \<Rightarrow> exn option \<times> state" where
  "points_loop L cfg message [] st = (None, st)"
| "points_loop L cfg message (point # rest) st =
     (case process_point L cfg message point st of
        (Next, st') \<Rightarrow> points_loop L cfg message rest st'
      | (Return, st') \<Rightarrow> (None, st')
      | (Raise e, st') \<Rightarrow> (Some e, st'))"

definition on_mqtt_message ::
  "('p, 'e) libs \<Rightarrow> ('p, 'e) config \<Rightarrow> message \<Rightarrow> exn option \<times> state" where
  "on_mqtt_message L cfg message =
     points_loop L cfg message (points cfg)
       \<lparr>st_msg = None, st_payload = VNone, st_calls = []\<rparr>"

section \<open>A model of the libraries, for the examples\<close>

text \<open>
  The examples below run the handler on concrete messages, so they need concrete
  libraries. Each definition here gives what the library returns on the inputs of the
  examples; none of the general theorems depends on them.
\<close>

text \<open>A fragment of \<^verbatim>\<open>jsonpath_ng\<close>: the root, a field, and the child operator.\<close>

datatype jsonpath = Root | Fields string | Child jsonpath jsonpath

fun jsonpath_find :: "jsonpath \<Rightarrow> pyval \<Rightarrow> pyval list" where
  "jsonpath_find Root v = [v]"
| "jsonpath_find (Fields k) v =
     (case v of
        VDict d \<Rightarrow> (case map_of d k of None \<Rightarrow> [] | Some x \<Rightarrow> [x])
      | _ \<Rightarrow> [])"
| "jsonpath_find (Child l r) v = concat (map (jsonpath_find r) (jsonpath_find l v))"

text \<open>\<^verbatim>\<open>json_path\<close> on a path of the form \<^verbatim>\<open>$.a.b\<close>.\<close>

definition parse_path :: "string \<Rightarrow> jsonpath" where
  "parse_path s = foldl (\<lambda>p k. Child p (Fields k)) Root (tl (str_split CHR ''.'' s))"

text \<open>
  Modelled from the spec: \<^verbatim>\<open>variable_to_jsonpath\<close> of the module \<^verbatim>\<open>expr\<close>, which is
  not among the sources. The spec has a placeholder carry a fixed prefix and be
  converted to a path expression, \<^verbatim>\<open>JSON__payload__value\<close> naming the value under
  \<^verbatim>\<open>value\<close> in the payload: the marker \<^verbatim>\<open>JSON\<close> becomes the root \<^verbatim>\<open>$\<close> and every
  \<^verbatim>\<open>__\<close> a dot.
\<close>

fun dunder_to_dot :: "string \<Rightarrow> string" where
  "dunder_to_dot (a # b # s) =
     (if a = CHR ''_'' \<and> b = CHR ''_'' then CHR ''.'' # dunder_to_dot s
      else a # dunder_to_dot (b # s))"
| "dunder_to_dot s = s"

definition placeholder_to_path :: "string \<Rightarrow> string" where
  "placeholder_to_path var = ''$'' @ dunder_to_dot (drop 4 var)"

text \<open>
  A fragment of \<^verbatim>\<open>py_expression_eval\<close>: integer constants, variables, and the
  operators \<^verbatim>\<open>+\<close>, \<^verbatim>\<open>-\<close> and \<^verbatim>\<open>*\<close> on integers. An unbound variable raises.
\<close>

datatype expression =
    Num int
  | Var string
  | Add expression expression
  | Sub expression expression
  | Mul expression expression

fun expr_variables :: "expression \<Rightarrow> string list" where
  "expr_variables (Num n) = []"
| "expr_variables (Var x) = [x]"
| "expr_variables (Add a b) = remdups (expr_variables a @ expr_variables b)"
| "expr_variables (Sub a b) = remdups (expr_variables a @ expr_variables b)"
| "expr_variables (Mul a b) = remdups (expr_variables a @ expr_variables b)"

definition int_op :: "(int \<Rightarrow> int \<Rightarrow> int) \<Rightarrow> exn + pyval \<Rightarrow> exn + pyval \<Rightarrow> exn + pyval" where
  "int_op f a b =
     (case a of
        Inl e \<Rightarrow> Inl e
      | Inr x \<Rightarrow>
          (case b of
             Inl e \<Rightarrow> Inl e
           | Inr y \<Rightarrow>
               (case (x, y) of
                  (VInt i, VInt j) \<Rightarrow> Inr (VInt (f i j))
                | _ \<Rightarrow> Inl TypeError)))"

fun expr_evaluate :: "expression \<Rightarrow> (string \<times> pyval) list \<Rightarrow> exn + pyval" where
  "expr_evaluate (Num n) vars = Inr (VInt n)"
| "expr_evaluate (Var x) vars =
     (case map_of vars x of None \<Rightarrow> Inl ExpressionError | Some v \<Rightarrow> Inr v)"
| "expr_evaluate (Add a b) vars = int_op (+) (expr_evaluate a vars) (expr_evaluate b vars)"
| "expr_evaluate (Sub a b) vars = int_op (-) (expr_evaluate a vars) (expr_evaluate b vars)"
| "expr_evaluate (Mul a b) vars = int_op (*) (expr_evaluate a vars) (expr_evaluate b vars)"

text \<open>\<^verbatim>\<open>json.loads\<close> on the payloads of the examples; it raises on any other text.\<close>

definition json_value_10 :: string where
  \<open>json_value_10 = ''{"value": 10}''\<close>

definition json_timestamp_value :: string where
  \<open>json_timestamp_value = ''{"timestamp": 1700000000, "value": 5}''\<close>

definition json_data :: string where
  \<open>json_data = ''{"data": "aGk="}''\<close>

definition sample_loads :: "string \<Rightarrow> pyval option" where
  "sample_loads s =
     map_of
       [(''null'', VNone),
        (''true'', VBool True),
        (''-5'', VInt (- 5)),
        (json_value_10, VDict [(''value'', VInt 10)]),
        (json_timestamp_value, VDict [(''timestamp'', VInt 1700000000), (''value'', VInt 5)]),
        (json_data, VDict [(''data'', VStr ''aGk='')])]
       s"

text \<open>
  Three attributes of the module \<^verbatim>\<open>builtins\<close>, on \<^verbatim>\<open>bool\<close> and \<^verbatim>\<open>int\<close>
  arguments: \<^verbatim>\<open>int\<close>, \<^verbatim>\<open>bool\<close> and \<^verbatim>\<open>abs\<close>.
\<close>

definition sample_builtins :: "string \<Rightarrow> (pyval \<Rightarrow> exn + pyval) option" where
  "sample_builtins name =
     map_of
       [(''int'', \<lambda>v. case v of VInt i \<Rightarrow> Inr (VInt i)
                       | VBool b \<Rightarrow> Inr (VInt (if b then 1 else 0))
                       | _ \<Rightarrow> Inl (OtherError ''not modelled'')),
        (''bool'', \<lambda>v. case v of VInt i \<Rightarrow> Inr (VBool (i \<noteq> 0))
                       | VBool b \<Rightarrow> Inr (VBool b)
                       | _ \<Rightarrow> Inl (OtherError ''not modelled'')),
        (''abs'', \<lambda>v. case v of VInt i \<Rightarrow> Inr (VInt \<bar>i\<bar>)
                       | VBool b \<Rightarrow> Inr (VInt (if b then 1 else 0))
                       | _ \<Rightarrow> Inl (OtherError ''not modelled''))]
       name"

text \<open>
  \<^verbatim>\<open>base64.b64decode\<close> on a \<^verbatim>\<open>str\<close> of whole groups of four characters of the
  standard alphabet, the last one padded with \<^verbatim>\<open>=\<close>.
\<close>

fun index_of :: "char \<Rightarrow> string \<Rightarrow> nat option" where
  "index_of c [] = None"
| "index_of c (x # xs) =
     (if c = x then Some 0 else map_option Suc (index_of c xs))"

definition b64_value :: "char \<Rightarrow> nat option" where
  "b64_value c =
     index_of c ''ABCDEFGHIJKLMNOPQRSTUVWXYZabcdefghijklmnopqrstuvwxyz0123456789+/''"

definition byte :: "nat \<Rightarrow> char" where
  "byte n = char_of (n mod 256)"

fun b64_groups :: "string \<Rightarrow> string option" where
  "b64_groups [] = Some []"
| "b64_groups (a # b # c # d # s) =
     (case (b64_value a, b64_value b) of
        (Some x, Some y) \<Rightarrow>
          (if c = CHR ''='' \<and> d = CHR ''='' \<and> s = [] then Some [byte (x * 4 + y div 16)]
           else
             (case b64_value c of
                None \<Rightarrow> None
              | Some z \<Rightarrow>
                  (if d = CHR ''='' \<and> s = []
                   then Some [byte (x * 4 + y div 16), byte (y * 16 + z div 4)]
                   else
                     (case (b64_value d, b64_groups s) of
                        (Some w, Some bs) \<Rightarrow>
                          Some (byte (x * 4 + y div 16) # byte (y * 16 + z div 4) #
                                byte (z * 64 + w) # bs)
                      | _ \<Rightarrow> None))))
      | _ \<Rightarrow> None)"
| "b64_groups s = None"

definition sample_b64decode :: "pyval \<Rightarrow> exn + string" where
  "sample_b64decode v =
     (case v of
        VStr s \<Rightarrow> (case b64_groups s of None \<Rightarrow> Inl BinasciiError | Some bs \<Rightarrow> Inr bs)
      | _ \<Rightarrow> Inl TypeError)"

text \<open>
  The host of the examples: its clock reads 2023-11-14T23:00:00 UTC, its local time is
  UTC, the only schedule active at that minute is \<^verbatim>\<open>* * * * *\<close>, and \<^verbatim>\<open>requests\<close>
  has its usual verbs.
\<close>

definition sample_libs :: "(jsonpath, expression) libs" where
  "sample_libs =
     \<lparr>json_loads = sample_loads,
      path_find = jsonpath_find,
      variables = expr_variables,
      evaluate = expr_evaluate,
      variable_to_jsonpath = placeholder_to_path,
      json_path = parse_path,
      is_now = (\<lambda>s. s = ''* * * * *''),
      utcnow = 1700002800,
      utcoffset = (\<lambda>t. 0),
      float_epoch = (\<lambda>f. None),
      float_truthy = (\<lambda>f. True),
      builtins = sample_builtins,
      b64decode = sample_b64decode,
      requests = (\<lambda>a. a \<in> set [''get'', ''post'', ''put'', ''patch'', ''delete''])\<rparr>"

text \<open>
  A message on the topic \<^verbatim>\<open>sensors/a/temp\<close>, a point that subscribes to
  \<^verbatim>\<open>sensors/+/temp\<close> and writes the payload's \<^verbatim>\<open>value\<close> as the measurement
  \<^verbatim>\<open>temperature\<close>, and a configuration with neither \<^verbatim>\<open>base64decode\<close> nor
  \<^verbatim>\<open>http\<close>.
\<close>

definition sample_message :: "string \<Rightarrow> message" where
  "sample_message body =
     \<lparr>msg_topic = ''sensors/a/temp'', msg_payload = body,
      msg_timestamp = VFloat (Binary64 0), msg_qos = VInt 0\<rparr>"

definition sample_point :: "(jsonpath, expression) point" where
  "sample_point =
     \<lparr>topic = ''sensors/+/temp'',
      measurement = Literal ''temperature'',
      schedule = None,
      point_fields =
        Some (FieldsDict [(''value'', Bare (PathLookup (parse_path ''$.payload.value'')))]),
      tags = None,
      database = None,
      httpcontent = None\<rparr>"

definition sample_config ::
  "(jsonpath, expression) point list \<Rightarrow> (jsonpath, expression) config" where
  "sample_config ps = \<lparr>points = ps, base64decode = None, http = None\<rparr>"

section \<open>The context of a message\<close>

text \<open>
  Between two iterations the local \<^verbatim>\<open>payload\<close> is unset (no context yet) or is what
  \<open>build_msg\<close> makes of the message.
\<close>

definition ctx_ok :: "('p, 'e) libs \<Rightarrow> message \<Rightarrow> state \<Rightarrow> bool" where
  "ctx_ok L message st =
     (st_msg st = None \<or> st_msg st = Some [] \<or>
      (\<exists>msg. build_msg L message = Inr (st_payload st, msg)))"

section \<open>Notions of the specification\<close>


text \<open>The value reference of one entry of \<^verbatim>\<open>point['fields']\<close>.\<close>

fun spec_ref :: "('p, 'e) fieldspec \<Rightarrow> ('p, 'e) valueref" where
  "spec_ref (Bare p) = p"
| "spec_ref (Typed p ty) = p"

text \<open>The value references configured for the fields of a point.\<close>

definition field_refs :: "('p, 'e) point \<Rightarrow> ('p, 'e) valueref list" where
  "field_refs point =
     (case point_fields point of
        None \<Rightarrow> []
      | Some (FieldsPath p) \<Rightarrow> [PathLookup p]
      | Some (FieldsDict flds) \<Rightarrow> map (\<lambda>(key, spec). spec_ref spec) flds)"



section \<open>Expressions\<close>




section \<open>What one message can make the handler call\<close>

lemma forward_http_calls:
  "\<exists>ws. st_calls (snd (forward_http L cfg point st msg)) = st_calls st @ ws \<and>
        (\<forall>r db. Write_points r db \<notin> set ws)"
  by (auto simp: forward_http_def split: option.split sum.split)

lemma forward_http_locals:
  "st_payload (snd (forward_http L cfg point st msg)) = st_payload st \<and>
   st_msg (snd (forward_http L cfg point st msg)) = st_msg st"
  by (auto simp: forward_http_def split: option.split sum.split)

lemma emit_point_calls:
  "\<exists>ws. st_calls (snd (emit_point L cfg point st msg)) = st_calls st @ ws \<and>
        (\<forall>r db. Write_points r db \<in> set ws \<longrightarrow>
           rec_measurement r \<noteq> VNone \<and> truthy L (rec_fields r) \<and>
           rec_time r = record_timestamp L (st_payload st))"
proof -
  have fw: "\<And>st'. \<exists>ws. st_calls (snd (forward_http L cfg point st' msg')) = st_calls st' @ ws \<and>
        (\<forall>r db. Write_points r db \<notin> set ws)" for msg'
    by (rule forward_http_calls)
  show ?thesis
    unfolding emit_point_def Let_def
    apply (simp split: sum.split)
    apply (intro allI impI conjI)
    subgoal for m msg' flds tgs
      using fw [of "st\<lparr>st_msg := Some msg', st_calls := st_calls st @
          [Write_points \<lparr>rec_measurement = m, rec_time = record_timestamp L (st_payload st),
             rec_tags = tgs, rec_fields = flds\<rparr> (database point)]\<rparr>" msg']
      by auto
    done
qed

lemma emit_point_locals:
  "st_payload (snd (emit_point L cfg point st msg)) = st_payload st \<and>
   st_msg (snd (emit_point L cfg point st msg)) \<noteq> None \<or>
   snd (emit_point L cfg point st msg) = st"
  unfolding emit_point_def Let_def
  by (simp add: forward_http_locals split: sum.split)

lemma ensure_msg_payload:
  "ctx_ok L message st \<Longrightarrow> ensure_msg L message st = Inr (payload, msg) \<Longrightarrow>
   \<exists>msg0. build_msg L message = Inr (payload, msg0)"
  by (auto simp: ctx_ok_def ensure_msg_def split: option.splits if_splits)

lemma process_point_ctx:
  assumes "ctx_ok L message st"
  shows "ctx_ok L message (snd (process_point L cfg message point st))"
proof (cases "topic_matches_sub (topic point) (msg_topic message)")
  case False
  then show ?thesis using assms by (simp add: process_point_def)
next
  case True
  show ?thesis
  proof (cases "ensure_msg L message st")
    case (Inl e)
    then show ?thesis using assms True by (simp add: process_point_def)
  next
    case (Inr pm)
    obtain payload msg where pm: "pm = (payload, msg)" by (cases pm)
    from ensure_msg_payload [OF assms] Inr pm
    obtain msg0 where b: "build_msg L message = Inr (payload, msg0)" by blast
    let ?st' = "st\<lparr>st_msg := Some msg, st_payload := payload\<rparr>"
    have ok': "ctx_ok L message ?st'" using b by (auto simp: ctx_ok_def)
    have "ctx_ok L message (snd (emit_point L cfg point ?st' msg))"
      using emit_point_locals [of L cfg point ?st' msg] ok' b
      by (auto simp: ctx_ok_def)
    then show ?thesis using True Inr pm ok'
      by (simp add: process_point_def Let_def)
  qed
qed

lemma process_point_calls:
  assumes "ctx_ok L message st"
  shows "\<exists>ws. st_calls (snd (process_point L cfg message point st)) = st_calls st @ ws \<and>
        (\<forall>r db. Write_points r db \<in> set ws \<longrightarrow>
           rec_measurement r \<noteq> VNone \<and> truthy L (rec_fields r) \<and>
           (\<exists>payload msg. build_msg L message = Inr (payload, msg) \<and>
              rec_time r = record_timestamp L payload))"
proof (cases "topic_matches_sub (topic point) (msg_topic message)")
  case False
  then show ?thesis by (simp add: process_point_def)
next
  case True
  show ?thesis
  proof (cases "ensure_msg L message st")
    case (Inl e)
    then show ?thesis using True by (simp add: process_point_def)
  next
    case (Inr pm)
    obtain payload msg where pm: "pm = (payload, msg)" by (cases pm)
    from ensure_msg_payload [OF assms] Inr pm
    obtain msg0 where b: "build_msg L message = Inr (payload, msg0)" by blast
    let ?st' = "st\<lparr>st_msg := Some msg, st_payload := payload\<rparr>"
    from emit_point_calls [of L cfg point ?st' msg] b
    have "\<exists>ws. st_calls (snd (emit_point L cfg point ?st' msg)) = st_calls st @ ws \<and>
        (\<forall>r db. Write_points r db \<in> set ws \<longrightarrow>
           rec_measurement r \<noteq> VNone \<and> truthy L (rec_fields r) \<and>
           (\<exists>payload msg. build_msg L message = Inr (payload, msg) \<and>
              rec_time r = record_timestamp L payload))"
      by auto
    then show ?thesis using True Inr pm
      by (auto simp: process_point_def Let_def)
  qed
qed

lemma points_loop_calls:
  assumes "ctx_ok L message st"
  shows "\<exists>ws. st_calls (snd (points_loop L cfg message ps st)) = st_calls st @ ws \<and>
        (\<forall>r db. Write_points r db \<in> set ws \<longrightarrow>
           rec_measurement r \<noteq> VNone \<and> truthy L (rec_fields r) \<and>
           (\<exists>payload msg. build_msg L message = Inr (payload, msg) \<and>
              rec_time r = record_timestamp L payload))"
  using assms
proof (induction ps arbitrary: st)
  case Nil
  show ?case by simp
next
  case (Cons point ps)
  obtain fl st' where pp: "process_point L cfg message point st = (fl, st')"
    by (cases "process_point L cfg message point st")
  from process_point_calls [OF Cons.prems, of cfg point] pp
  obtain ws where ws: "st_calls st' = st_calls st @ ws"
    "\<forall>r db. Write_points r db \<in> set ws \<longrightarrow>
           rec_measurement r \<noteq> VNone \<and> truthy L (rec_fields r) \<and>
           (\<exists>payload msg. build_msg L message = Inr (payload, msg) \<and>
              rec_time r = record_timestamp L payload)"
    by auto
  from process_point_ctx [OF Cons.prems, of cfg point] pp
  have ok': "ctx_ok L message st'" by simp
  show ?case
  proof (cases fl)
    case Next
    from Cons.IH [OF ok'] obtain ws' where ws':
      "st_calls (snd (points_loop L cfg message ps st')) = st_calls st' @ ws'"
      "\<forall>r db. Write_points r db \<in> set ws' \<longrightarrow>
           rec_measurement r \<noteq> VNone \<and> truthy L (rec_fields r) \<and>
           (\<exists>payload msg. build_msg L message = Inr (payload, msg) \<and>
              rec_time r = record_timestamp L payload)"
      by blast
    have "st_calls (snd (points_loop L cfg message (point # ps) st)) = st_calls st @ (ws @ ws')"
      using pp Next ws(1) ws'(1) by simp
    moreover have "\<forall>r db. Write_points r db \<in> set (ws @ ws') \<longrightarrow>
           rec_measurement r \<noteq> VNone \<and> truthy L (rec_fields r) \<and>
           (\<exists>payload msg. build_msg L message = Inr (payload, msg) \<and>
              rec_time r = record_timestamp L payload)"
      using ws(2) ws'(2) by auto
    ultimately show ?thesis by blast
  next
    case Return
    then show ?thesis using pp ws by auto
  next
    case (Raise e)
    then show ?thesis using pp ws by auto
  qed
qed

lemma on_mqtt_message_writes:
  assumes "Write_points r db \<in> set (st_calls (snd (on_mqtt_message L cfg message)))"
  shows "rec_measurement r \<noteq> VNone \<and> truthy L (rec_fields r) \<and>
         (\<exists>payload msg. build_msg L message = Inr (payload, msg) \<and>
            rec_time r = record_timestamp L payload)"
proof -
  have "ctx_ok L message \<lparr>st_msg = None, st_payload = VNone, st_calls = []\<rparr>"
    by (simp add: ctx_ok_def)
  from points_loop_calls [OF this, of cfg "points cfg"] assms
  show ?thesis by (auto simp: on_mqtt_message_def)
qed

section \<open>Fields that resolve to nothing\<close>

lemma field_value_None:
  "get_value_from_str_or_JSONPath L (spec_ref spec) msg = Inr VNone \<Longrightarrow>
   field_value L flds msg key spec = Inr VNone"
  by (cases spec) auto

lemma fields_loop_None:
  "\<forall>(key, spec) \<in> set xs. get_value_from_str_or_JSONPath L (spec_ref spec) msg = Inr VNone \<Longrightarrow>
   fields_loop L flds msg xs acc = Inr acc"
  by (induction xs) (auto simp: field_value_None)

lemma resolve_fields_None:
  assumes "\<forall>ref \<in> set (field_refs point). get_value_from_str_or_JSONPath L ref msg = Inr VNone"
  shows "\<exists>flds. resolve_fields L point msg = Inr flds \<and> \<not> truthy L flds"
proof (cases "point_fields point")
  case None
  then show ?thesis by (simp add: resolve_fields_def)
next
  case (Some fs)
  show ?thesis
  proof (cases fs)
    case (FieldsPath p)
    with Some assms show ?thesis by (simp add: resolve_fields_def field_refs_def)
  next
    case (FieldsDict flds)
    with Some assms
    have "\<forall>(key, spec) \<in> set flds.
            get_value_from_str_or_JSONPath L (spec_ref spec) msg = Inr VNone"
      by (auto simp: field_refs_def)
    from fields_loop_None [OF this, of flds "[]"] Some FieldsDict
    show ?thesis by (simp add: resolve_fields_def)
  qed
qed

lemma emit_point_no_fields:
  assumes "\<And>msg'. base64_merge L cfg msg = Inr msg' \<Longrightarrow>
     \<forall>ref \<in> set (field_refs point). get_value_from_str_or_JSONPath L ref msg' = Inr VNone"
  shows "st_calls (snd (emit_point L cfg point st msg)) = st_calls st"
proof (cases "base64_merge L cfg msg")
  case (Inl e)
  then show ?thesis by (simp add: emit_point_def Let_def split: sum.split)
next
  case (Inr msg')
  from resolve_fields_None [OF assms [OF Inr]]
  obtain flds where "resolve_fields L point msg' = Inr flds" "\<not> truthy L flds" by blast
  with Inr show ?thesis by (simp add: emit_point_def Let_def split: sum.split)
qed

lemma process_point_no_fields:
  assumes "\<And>payload msg msg'. ensure_msg L message st = Inr (payload, msg) \<Longrightarrow>
     base64_merge L cfg msg = Inr msg' \<Longrightarrow>
     \<forall>ref \<in> set (field_refs point). get_value_from_str_or_JSONPath L ref msg' = Inr VNone"
  shows "st_calls (snd (process_point L cfg message point st)) = st_calls st"
proof (cases "ensure_msg L message st")
  case (Inl e)
  then show ?thesis by (simp add: process_point_def)
next
  case (Inr pm)
  obtain payload msg where pm: "pm = (payload, msg)" by (cases pm)
  have "st_calls (snd (emit_point L cfg point (st\<lparr>st_msg := Some msg, st_payload := payload\<rparr>) msg))
      = st_calls st"
    using emit_point_no_fields [of L cfg msg point "st\<lparr>st_msg := Some msg, st_payload := payload\<rparr>"]
      assms Inr pm by simp
  then show ?thesis using Inr pm by (simp add: process_point_def Let_def)
qed

text \<open>
  C5. Every record that the handler writes for a message has a measurement other than
  \<^verbatim>\<open>None\<close> and a field set that is not empty; and a point writes nothing for a
  message in whose context every value reference configured for its fields resolves to
  \<^verbatim>\<open>None\<close>.
\<close>

theorem record_emission_invariant:
  "(Write_points r db \<in> set (st_calls (snd (on_mqtt_message L cfg message))) \<longrightarrow>
      rec_measurement r \<noteq> VNone \<and> truthy L (rec_fields r) \<and> rec_fields r \<noteq> VDict []) \<and>
   ((\<forall>payload msg msg'.
       ensure_msg L message st = Inr (payload, msg) \<longrightarrow>
       base64_merge L cfg msg = Inr msg' \<longrightarrow>
       (\<forall>ref \<in> set (field_refs point).
          get_value_from_str_or_JSONPath L ref msg' = Inr VNone)) \<longrightarrow>
    st_calls (snd (process_point L cfg message point st)) = st_calls st)"
proof (intro conjI impI)
  assume w: "Write_points r db \<in> set (st_calls (snd (on_mqtt_message L cfg message)))"
  from on_mqtt_message_writes [OF w]
  show "rec_measurement r \<noteq> VNone" and "truthy L (rec_fields r)" by simp_all
  then show "rec_fields r \<noteq> VDict []" by auto
next
  assume "\<forall>payload msg msg'.
       ensure_msg L message st = Inr (payload, msg) \<longrightarrow>
       base64_merge L cfg msg = Inr msg' \<longrightarrow>
       (\<forall>ref \<in> set (field_refs point).
          get_value_from_str_or_JSONPath L ref msg' = Inr VNone)"
  then show "st_calls (snd (process_point L cfg message point st)) = st_calls st"
    by (intro process_point_no_fields) blast
qed

theorem record_emission_invariant_witness:
  "Write_points
     \<lparr>rec_measurement = VStr ''temperature'', rec_time = ''2023-11-14T23:00:00Z'',
      rec_tags = [], rec_fields = VDict [(''value'', VInt 10)]\<rparr> None
     \<in> set (st_calls (snd (on_mqtt_message sample_libs (sample_config [sample_point])
          (sample_message json_value_10)))) \<and>
   truthy sample_libs (VDict [(''value'', VInt 10)]) \<and>
   get_value_from_str_or_JSONPath sample_libs
     (PathLookup (parse_path ''$.payload.value''))
     [(''topic'', VList [VStr ''sensors'', VStr ''a'', VStr ''temp'']),
      (''payload'', VStr ''hello''),
      (''timestamp'', VFloat (Binary64 0)), (''qos'', VInt 0)] = Inr VNone \<and>
   st_calls (snd (process_point sample_libs (sample_config [sample_point])
      (sample_message ''hello'') sample_point
      \<lparr>st_msg = None, st_payload = VNone, st_calls = []\<rparr>)) = []"
proof -
  let ?r = "\<lparr>rec_measurement = VStr ''temperature'', rec_time = ''2023-11-14T23:00:00Z'',
      rec_tags = [], rec_fields = VDict [(''value'', VInt 10)]\<rparr>"
  let ?st = "\<lparr>st_msg = None, st_payload = VNone, st_calls = []\<rparr>"
  let ?ctx = "[(''topic'', VList [VStr ''sensors'', VStr ''a'', VStr ''temp'']),
      (''payload'', VStr ''hello''),
      (''timestamp'', VFloat (Binary64 0)), (''qos'', VInt 0)]"
  have w: "Write_points ?r None
     \<in> set (st_calls (snd (on_mqtt_message sample_libs (sample_config [sample_point])
          (sample_message json_value_10))))"
    by code_simp
  have em: "ensure_msg sample_libs (sample_message ''hello'') ?st = Inr (VStr ''hello'', ?ctx)"
    by code_simp
  have bm: "\<And>m. base64_merge sample_libs (sample_config [sample_point]) m = Inr m"
    by (simp add: base64_merge_def sample_config_def)
  have fr: "\<forall>ref \<in> set (field_refs sample_point).
      get_value_from_str_or_JSONPath sample_libs ref ?ctx = Inr VNone"
    by code_simp
  have g: "get_value_from_str_or_JSONPath sample_libs
     (PathLookup (parse_path ''$.payload.value'')) ?ctx = Inr VNone"
    by code_simp
  have h: "\<forall>payload msg msg'.
       ensure_msg sample_libs (sample_message ''hello'') ?st = Inr (payload, msg) \<longrightarrow>
       base64_merge sample_libs (sample_config [sample_point]) msg = Inr msg' \<longrightarrow>
       (\<forall>ref \<in> set (field_refs sample_point).
          get_value_from_str_or_JSONPath sample_libs ref msg' = Inr VNone)"
    using fr by (simp add: em bm)
  from record_emission_invariant [of ?r None sample_libs "sample_config [sample_point]"
      "sample_message json_value_10"] w
  have "truthy sample_libs (rec_fields ?r)" by blast
  moreover
  from record_emission_invariant [of ?r None sample_libs "sample_config [sample_point]"
      "sample_message ''hello''" ?st sample_point] h
  have "st_calls (snd (process_point sample_libs (sample_config [sample_point])
      (sample_message ''hello'') sample_point ?st)) = st_calls ?st"
    by blast
  ultimately show ?thesis using w g by simp
qed

section \<open>A point whose references resolve\<close>










section \<open>The schedule\<close>




section \<open>Decoding the payload\<close>




section \<open>Conversions\<close>




text \<open>
  C6, as the claim states it, fails for the shape \<^verbatim>\<open>{value: ..., type: booltoint}\<close>:
  the type of that shape is looked up among the attributes of \<^verbatim>\<open>builtins\<close>, which
  has no \<^verbatim>\<open>booltoint\<close>, and the boolean is written as it is.
\<close>

theorem booltoint_counterexample:
  "resolve_fields sample_libs
     (sample_point\<lparr>point_fields :=
        Some (FieldsDict
          [(''state'', Typed (PathLookup (parse_path ''$.payload'')) ''booltoint'')])\<rparr>)
     [(''payload'', VBool True)] = Inr (VDict [(''state'', VBool True)])"
  by code_simp

text \<open>
  C6, amended. In a \<^verbatim>\<open>fields\<close> mapping whose entry \<^verbatim>\<open>type\<close> is the string
  \<^verbatim>\<open>booltoint\<close>, the entry \<^verbatim>\<open>value\<close>, given as a bare value reference that resolves
  to a boolean, yields the integer 1 for true and 0 for false. In the shape with a
  \<^verbatim>\<open>value\<close> and a \<^verbatim>\<open>type\<close> of its own, \<^verbatim>\<open>booltoint\<close> is no attribute of
  \<^verbatim>\<open>builtins\<close> and the boolean passes unchanged.
\<close>

theorem booltoint_coercion:
  assumes "get_value_from_str_or_JSONPath L p msg = Inr (VBool b)"
  shows "(map_of flds ''type'' = Some (Bare (Literal ''booltoint'')) \<longrightarrow>
            field_value L flds msg ''value'' (Bare p) = Inr (VInt (if b then 1 else 0))) \<and>
         (builtins L ''booltoint'' = None \<longrightarrow>
            field_value L flds msg key (Typed p ''booltoint'') = Inr (VBool b))"
  using assms by auto

theorem booltoint_coercion_witness:
  "get_value_from_str_or_JSONPath sample_libs (PathLookup (parse_path ''$.payload''))
     [(''payload'', VBool True)] = Inr (VBool True) \<and>
   field_value sample_libs
     [(''value'', Bare (PathLookup (parse_path ''$.payload''))),
      (''type'', Bare (Literal ''booltoint''))]
     [(''payload'', VBool True)] ''value''
     (Bare (PathLookup (parse_path ''$.payload''))) = Inr (VInt 1) \<and>
   resolve_fields sample_libs
     (sample_point\<lparr>point_fields :=
        Some (FieldsDict
          [(''value'', Bare (PathLookup (parse_path ''$.payload''))),
           (''type'', Bare (Literal ''booltoint''))])\<rparr>)
     [(''payload'', VBool False)] = Inr (VDict [(''value'', VInt 0), (''type'', VStr ''int'')])"
proof -
  let ?flds = "[(''value'', Bare (PathLookup (parse_path ''$.payload''))),
      (''type'', Bare (Literal ''booltoint''))] :: (string \<times> (jsonpath, expression) fieldspec) list"
  have g: "get_value_from_str_or_JSONPath sample_libs (PathLookup (parse_path ''$.payload''))
     [(''payload'', VBool True)] = Inr (VBool True)"
    by code_simp
  have t: "map_of ?flds ''type'' = Some (Bare (Literal ''booltoint''))" by simp
  from booltoint_coercion [OF g, of ?flds] t
  have v: "field_value sample_libs ?flds [(''payload'', VBool True)] ''value''
     (Bare (PathLookup (parse_path ''$.payload''))) = Inr (VInt 1)"
    by simp
  have r: "resolve_fields sample_libs
     (sample_point\<lparr>point_fields := Some (FieldsDict ?flds)\<rparr>)
     [(''payload'', VBool False)] = Inr (VDict [(''value'', VInt 0), (''type'', VStr ''int'')])"
    by code_simp
  from g v r show ?thesis by blast
qed

section \<open>Where the handler departs from the specification\<close>

text \<open>
  C1. A missing measurement ends the handler by \<^verbatim>\<open>return\<close> (line 137), where the
  inactive schedule of line 132 uses \<^verbatim>\<open>continue\<close>: of two points that match the
  message, the first without a measurement, the second is never processed, though alone
  it writes its record. The same holds for the \<^verbatim>\<open>return\<close> of line 197 on an empty
  field set.
\<close>

theorem rule_failure_ends_dispatch:
  "get_value_from_str_or_JSONPath sample_libs (PathLookup (parse_path ''$.payload.name''))
     [(''payload'', VDict [(''value'', VInt 10)])] = Inr VNone \<and>
   on_mqtt_message sample_libs
     (sample_config
        [sample_point\<lparr>measurement := PathLookup (parse_path ''$.payload.name'')\<rparr>,
         sample_point])
     (sample_message json_value_10) =
     (None,
      \<lparr>st_msg = Some [(''topic'', VList [VStr ''sensors'', VStr ''a'', VStr ''temp'']),
                       (''payload'', VDict [(''value'', VInt 10)]),
                       (''timestamp'', VFloat (Binary64 0)), (''qos'', VInt 0)],
       st_payload = VDict [(''value'', VInt 10)],
       st_calls = []\<rparr>) \<and>
   st_calls (snd (on_mqtt_message sample_libs
     (sample_config
        [sample_point\<lparr>point_fields := Some (FieldsDict
           [(''name'', Bare (PathLookup (parse_path ''$.payload.name'')))])\<rparr>,
         sample_point])
     (sample_message json_value_10))) = [] \<and>
   st_calls (snd (on_mqtt_message sample_libs (sample_config [sample_point])
     (sample_message json_value_10))) =
     [Write_points
        \<lparr>rec_measurement = VStr ''temperature'', rec_time = ''2023-11-14T23:00:00Z'',
         rec_tags = [], rec_fields = VDict [(''value'', VInt 10)]\<rparr> None]"
  by code_simp

text \<open>
  C2. \<^verbatim>\<open>datetime.fromtimestamp\<close> is called without a time zone and gives local time,
  which is then written with the suffix \<^verbatim>\<open>Z\<close>: on a host one hour east of UTC the
  payload \<^verbatim>\<open>{"timestamp": 1700000000, "value": 5}\<close> is recorded at 23:13:20Z, not at
  22:13:20Z, the UTC rendering of that instant.
\<close>

theorem embedded_timestamp_is_local_time:
  "strftime 1700000000 = ''2023-11-14T22:13:20Z'' \<and>
   st_calls (snd (on_mqtt_message (sample_libs\<lparr>utcoffset := \<lambda>t. 3600\<rparr>)
     (sample_config [sample_point]) (sample_message json_timestamp_value))) =
     [Write_points
        \<lparr>rec_measurement = VStr ''temperature'', rec_time = ''2023-11-14T23:13:20Z'',
         rec_tags = [], rec_fields = VDict [(''value'', VInt 5)]\<rparr> None]"
  by code_simp

text \<open>
  C4. The second \<^verbatim>\<open>msg.update\<close> (line 159) replaces the whole entry
  \<^verbatim>\<open>base64decoded\<close> that the first one (line 157) stored: after the merge the target
  key holds the hex string only, and a field that refers to the raw bytes resolves to
  nothing.
\<close>

theorem base64_raw_is_overwritten:
  "base64_merge sample_libs
     \<lparr>points = [],
      base64decode = Some \<lparr>source = PathLookup (parse_path ''$.payload.data''),
                            target = ''frame''\<rparr>,
      http = None\<rparr>
     [(''payload'', VDict [(''data'', VStr ''aGk='')])] =
     Inr [(''payload'', VDict [(''data'', VStr ''aGk='')]),
          (''base64decoded'', VDict [(''frame'', VDict [(''hex'', VStr ''6869'')])])] \<and>
   st_calls (snd (on_mqtt_message sample_libs
     \<lparr>points =
        [sample_point\<lparr>point_fields := Some (FieldsDict
           [(''raw'', Bare (PathLookup (parse_path ''$.base64decoded.frame.raw''))),
            (''hex'', Bare (PathLookup (parse_path ''$.base64decoded.frame.hex'')))])\<rparr>],
      base64decode = Some \<lparr>source = PathLookup (parse_path ''$.payload.data''),
                            target = ''frame''\<rparr>,
      http = None\<rparr>
     (sample_message json_data))) =
     [Write_points
        \<lparr>rec_measurement = VStr ''temperature'', rec_time = ''2023-11-14T23:00:00Z'',
         rec_tags = [], rec_fields = VDict [(''hex'', VStr ''6869'')]\<rparr> None]"
  by code_simp

end
